theory Spec2Isabelle
  imports Main "HOL-Library.Sublist"
begin

section \<open>Python values used by main.py\<close>

text \<open>
  A Python \<open>str\<close> is a sequence of Unicode code points, and \<open>len\<close> counts code points.
  A code point is a natural number here; \<open>lit\<close> embeds an ASCII literal of the source
  (every string literal of main.py is ASCII).
\<close>

type_synonym codepoint = nat
type_synonym pystr = "codepoint list"

definition lit :: "string \<Rightarrow> pystr" where
  "lit cs = map of_char cs"

text \<open>
  \<open>str.strip()\<close> without argument removes leading and trailing whitespace. The
  whitespace code points are those of CPython's \<open>Py_UNICODE_ISSPACE\<close>: the ASCII
  controls 9-13 and 28-31, the space, and the Unicode separators.
\<close>

definition py_isspace :: "codepoint \<Rightarrow> bool" where
  "py_isspace c =
     (c \<in> {9, 10, 11, 12, 13, 28, 29, 30, 31, 32, 133, 160, 5760,
            8232, 8233, 8239, 8287, 12288}
      \<or> (8192 \<le> c \<and> c \<le> 8202))"

definition strip :: "pystr \<Rightarrow> pystr" where
  "strip s = rev (dropWhile py_isspace (rev (dropWhile py_isspace s)))"

text \<open>\<open>str(n)\<close> for a non-negative integer: its decimal digits.\<close>

fun str_nat :: "nat \<Rightarrow> pystr" where
  "str_nat n = (if n < 10 then [48 + n] else str_nat (n div 10) @ [48 + n mod 10])"

declare str_nat.simps [simp del]

text \<open>
  The process environment: \<open>os.getenv(key)\<close> is \<open>None\<close> for a variable that is not
  set and the value otherwise. A string is truthy when it is not empty; \<open>None\<close> is falsy.
\<close>

type_synonym environ = "pystr \<rightharpoonup> pystr"

definition getenv :: "environ \<Rightarrow> pystr \<Rightarrow> pystr option" where
  "getenv env key = env key"

definition truthy :: "pystr option \<Rightarrow> bool" where
  "truthy v = (case v of None \<Rightarrow> False | Some s \<Rightarrow> s \<noteq> [])"

text \<open>
  An exception value: whether it is an instance of \<open>Exception\<close> (\<open>KeyboardInterrupt\<close> and
  \<open>SystemExit\<close> are not), and what \<open>str\<close> of it gives: its message, or the exception
  that its \<open>__str__\<close> raises.
\<close>

datatype exn = Exn (isinstance_Exception: bool) (str_of: "exn + pystr")

definition EOFError :: exn where
  "EOFError = Exn True (Inr (lit ''EOF when reading a line''))"


section \<open>The framework's objects\<close>

text \<open>
  \<open>Agent\<close>, \<open>Task\<close>, \<open>Crew\<close>, \<open>Process\<close> and the two tools are classes of the framework:
  an object is the record of the keyword arguments its constructor was given. A task's
  \<open>context\<close> is \<open>None\<close> when the argument is not passed.
\<close>

datatype tool = SerperDevTool | FileWriterTool

record agent =
  role :: pystr
  goal :: pystr
  backstory :: pystr
  tools :: "tool list"
  verbose :: bool
  allow_delegation :: bool

datatype task = Task
  (description: pystr)
  (expected_output: pystr)
  (task_agent: agent)
  (task_context: "task list option")
  (async_execution: bool)

datatype Process = Sequential | Hierarchical

record crew =
  agents :: "agent list"
  tasks :: "task list"
  process :: Process
  crew_verbose :: bool


section \<open>Module constants and factories\<close>

definition BACKGROUND_CONTEXT :: pystr where
  "BACKGROUND_CONTEXT = lit (
     ''You bring together experiences such as:\<newline>'' @
     ''- Guiding Stanford's Ethics, Technology, and Public Policy cohort alongside\<newline>'' @
     ''  Professors Mehran Sahami, Jeremy Weinstein, and Rob Reich\<newline>'' @
     ''- Examining artificial intelligence and software innovations as a U.S. Patent\<newline>'' @
     ''  Examiner and GAO technology auditor\<newline>'' @
     ''- Advising Federal leaders across the White House, OMB, SBA, GSA, and the\<newline>'' @
     ''  Department of Education on data transparency, emerging technology, and\<newline>'' @
     ''  digital service delivery\<newline>'' @
     ''- Championing human-centered design at IDEO and launching civic technology and\<newline>'' @
     ''  economic development initiatives with governments, nonprofits, and industry\<newline>'' @
     ''- Supporting academic and civic communities at the University of Pennsylvania,\<newline>'' @
     ''  University of Michigan, USC, and international forums such as UNICEF USA\<newline>'' @
     ''Use this lived experience to ground every analysis, highlight ethical and\<newline>'' @
     ''equity implications, and surface cross-sector collaboration opportunities.'')"

text \<open>
  The factories take no argument in the source; what they read of the process is its
  environment, which the model passes to each of them.
\<close>

definition maybe_create_serper_tool :: "environ \<Rightarrow> tool list" where
  "maybe_create_serper_tool env =
     (if truthy (getenv env (lit ''SERPER_API_KEY'')) then [SerperDevTool] else [])"

definition create_research_agent :: "environ \<Rightarrow> agent" where
  "create_research_agent env =
     \<lparr> role = lit ''Ethics and Emerging Technology Research Lead'',
       goal = lit (
         ''Synthesize cross-sector research into AI governance, civic technology,'' @
         '' and human-centered innovation so complex topics are ready for policy'' @
         '' and design discussions.''),
       backstory = lit (
         ''You guide conversations on technology ethics at Stanford, advise on AI'' @
         '' accountability from service at the U.S. Government Accountability Office'' @
         '' and the U.S. Patent and Trademark Office, and'' @
         '' translate research for public servants, engineers, and designers.''),
       tools = maybe_create_serper_tool env,
       verbose = True,
       allow_delegation = False \<rparr>"

definition create_writer_agent :: "environ \<Rightarrow> agent" where
  "create_writer_agent env =
     (let tools = [FileWriterTool] in
      \<lparr> role = lit ''Policy Communicator and Storyteller'',
        goal = lit (
          ''Transform nuanced research into compelling narratives with'' @
          '' clear recommendations for civic leaders, technologists, and academics.''),
        backstory = lit (
          ''Drawing on experience moderating discussions with global leaders,'' @
          '' crafting GAO reports for Congress, and briefing White House stakeholders,'' @
          '' you excel at weaving evidence, ethics, and inclusive'' @
          '' design into accessible writing.''),
        tools = tools,
        verbose = True,
        allow_delegation = False \<rparr>)"

definition create_research_task :: "agent \<Rightarrow> pystr \<Rightarrow> task" where
  "create_research_task agent topic =
     (let description =
        lit ''Investigate the topic: '' @ topic @ lit (
          ''\<newline>'' @
          ''\<newline>'' @
          ''    Anchor your thinking in the following background:\<newline>'' @
          ''    '') @ BACKGROUND_CONTEXT @ lit (
          ''\<newline>'' @
          ''\<newline>'' @
          ''    Focus your review on:\<newline>'' @
          ''    1. Ethical, societal, and economic implications across government, industry, and civil society\<newline>'' @
          ''    2. Practical case studies from Federal initiatives, academia, and mission-driven organizations\<newline>'' @
          ''    3. Key policy, legal, and governance debates shaping the technology's deployment\<newline>'' @
          ''    4. Opportunities to align innovation with public interest outcomes and inclusive design\<newline>'' @
          ''\<newline>'' @
          ''    Deliver concise, sourced findings suitable for collaboration with product, policy, and research partners.'');
        expected_output = lit (
          ''A structured research memo that includes:\<newline>'' @
          ''    - Executive summary highlighting the most relevant developments\<newline>'' @
          ''    - Table of key benefits, risks, and mitigation strategies\<newline>'' @
          ''    - Case studies with short annotations on impact and lessons learned\<newline>'' @
          ''    - Policy or governance considerations with references\<newline>'' @
          ''    - Bibliography of credible sources consulted'')
      in Task description expected_output agent None False)"

definition create_writing_task :: "agent \<Rightarrow> task \<Rightarrow> pystr \<Rightarrow> task" where
  "create_writing_task agent research_task topic =
     (let description =
        lit ''Using the research findings, craft a policy-oriented article on: '' @ topic @ lit (
          ''\<newline>'' @
          ''\<newline>'' @
          ''    Keep this lived experience in mind while writing:\<newline>'' @
          ''    '') @ BACKGROUND_CONTEXT @ lit (
          ''\<newline>'' @
          ''\<newline>'' @
          ''    Requirements:\<newline>'' @
          ''    1. Open with a concise briefing that situates the issue for technology and policy leaders\<newline>'' @
          ''    2. Organize sections for context, current state of the field, governance considerations, and future outlook\<newline>'' @
          ''    3. Showcase real-world examples that resonate with multi-sector stakeholders\<newline>'' @
          ''    4. Recommend actionable steps for researchers, product teams, and public officials\<newline>'' @
          ''    5. Save the article to 'article.md' in Markdown format\<newline>'' @
          ''\<newline>'' @
          ''    Aim for 800-1000 words with clear headings and accessible explanations.\<newline>'' @
          ''    Maintain a tone that reflects a collaborative civic technologist.'');
        expected_output = lit (
          ''A Markdown article saved as 'article.md' containing:\<newline>'' @
          ''    - Briefing-style introduction\<newline>'' @
          ''    - Thematic sections with descriptive headings\<newline>'' @
          ''    - Integrated examples and stakeholder perspectives\<newline>'' @
          ''    - Actionable recommendations and closing reflection\<newline>'' @
          ''    - Reference list for further reading'')
      in Task description expected_output agent (Some [research_task]) False)"


section \<open>Console output and the run of main\<close>

text \<open>
  What a run does to the outside, in order: \<open>Print s\<close> is \<open>print(s)\<close>, \<open>Input p\<close> is the
  prompt of \<open>input(p)\<close>, \<open>Kickoff c\<close> is the call \<open>c.kickoff()\<close>.
\<close>

datatype event = Print pystr | Input pystr | Kickoff crew

definition print_intro :: "event list" where
  "print_intro = [Print (lit ''Welcome''), Print (concat (replicate 50 (lit ''='')))]"

definition warn_about_missing_keys :: "environ \<Rightarrow> event list" where
  "warn_about_missing_keys env =
     (let missing = [];
          missing = (if \<not> truthy (getenv env (lit ''OPENAI_API_KEY''))
                     then missing @ [lit ''OPENAI_API_KEY''] else missing)
      in (if missing \<noteq> []
          then [Print (lit ''Warning: the following environment variables are not set:'')]
               @ map (\<lambda>key. Print (lit '' - '' @ key)) missing
               @ [Print (lit ''Set the required keys before running the crew to avoid runtime errors.'')]
          else [])
         @ (if getenv env (lit ''SERPER_API_KEY'') = None
            then [Print (lit (
                    ''Note: SERPER_API_KEY is not configured. Web search will be skipped,'' @
                    '' but the crew can still operate with available context.''))]
            else []))"

text \<open>
  What main is given from outside:
  \<^item> the environment;
  \<^item> the line \<open>input\<close> returns (\<open>None\<close> at end of file, where \<open>input\<close> raises
    \<open>EOFError\<close>);
  \<^item> what \<open>kickoff\<close> does on a crew: it raises, or it returns a result, of which main
    uses the \<open>str\<close> only (the text, or the exception that its \<open>__str__\<close> raises);
  \<^item> what writing to standard output a text that the framework supplied raises: \<open>None\<close>
    when the text is written, an exception (\<open>UnicodeEncodeError\<close>) when the stream cannot
    encode it;
  \<^item> what \<open>article.md\<close> is when main looks for it: missing, a file whose text \<open>read\<close>
    returns, or a path that exists and whose \<open>open\<close> or \<open>read\<close> raises (a directory,
    bytes that are not UTF-8).
\<close>

datatype outcome = Returns "exn + pystr" | Raises exn

datatype path_state = Missing | Text pystr | Unreadable exn

record world =
  environ :: environ
  stdin_line :: "pystr option"
  kickoff :: "crew \<Rightarrow> outcome"
  stdout_raises :: "pystr \<Rightarrow> exn option"
  article_md :: path_state

datatype exit = Returned | Propagated exn

text \<open>
  \<open>print(f"{lead}{x}")\<close> for an object \<open>x\<close> that the framework supplied (the exception
  caught, the final output), given what \<open>str(x)\<close> gives: the line that is written, or
  the exception raised, by \<open>str(x)\<close> or by the stream, before anything of the line is
  written. All other lines of main are ASCII literals of the source and the topic, which
  the console itself supplied; they are taken to be written.
\<close>

definition print_str :: "world \<Rightarrow> pystr \<Rightarrow> exn + pystr \<Rightarrow> exn + event" where
  "print_str w lead shown =
     (case shown of
        Inl err \<Rightarrow> Inl err
      | Inr text \<Rightarrow>
          (case stdout_raises w (lead @ text) of
             Some err \<Rightarrow> Inl err
           | None \<Rightarrow> Inr (Print (lead @ text))))"

text \<open>Lines 185-188 of main, on the line that \<open>input\<close> returned: the topic and what is printed.\<close>

definition choose_topic :: "pystr \<Rightarrow> pystr \<times> event list" where
  "choose_topic line =
     (let topic = strip line in
      if topic = []
      then (let topic = lit ''Public interest safeguards for generative AI systems''
            in (topic, [Print (lit ''No topic provided. Using default: '' @ topic)]))
      else (topic, []))"

text \<open>Lines 194-207 of main without their prints: the agents, the tasks and the crew.\<close>

definition assemble_crew :: "environ \<Rightarrow> pystr \<Rightarrow> crew" where
  "assemble_crew env topic =
     (let researcher = create_research_agent env;
          writer = create_writer_agent env;
          research_task = create_research_task researcher topic;
          writing_task = create_writing_task writer research_task topic
      in \<lparr> agents = [researcher, writer],
           tasks = [research_task, writing_task],
           process = Sequential,
           crew_verbose = True \<rparr>)"

definition main :: "world \<Rightarrow> event list \<times> exit" where
  "main w =
     (let out = print_intro @ warn_about_missing_keys (environ w)
                @ [Input (lit ''Enter a topic to explore: '')]
      in case stdin_line w of
           None \<Rightarrow> (out, Propagated EOFError)
         | Some line \<Rightarrow>
             (let (topic, said) = choose_topic line;
                  crew = assemble_crew (environ w) topic;
                  out = out @ said
                    @ [Print (lit ''\<newline>Topic: '' @ topic),
                       Print (concat (replicate 50 (lit ''=''))),
                       Print (lit ''\<newline>Configuring agents based on public service and design experience...''),
                       Print (lit ''Defining tasks aligned to research and storytelling workflows...''),
                       Print (lit ''\<newline>Launching the sequential crew...''),
                       Kickoff crew]
              in case kickoff w crew of
                   Raises exc \<Rightarrow>
                     if isinstance_Exception exc
                     then (let out = out
                                 @ [Print (lit ''\<newline>Crew execution did not complete successfully.'')]
                           in case print_str w (lit ''Reason: '') (str_of exc) of
                                Inl err \<Rightarrow> (out, Propagated err)
                              | Inr reason \<Rightarrow>
                                  (out @ [reason,
                                          Print (lit ''Verify API credentials and network access, then re-run the script.'')],
                                   Returned))
                     else (out, Propagated exc)
                 | Returns final_output \<Rightarrow>
                     (let out = out
                            @ [Print (lit ''\<newline>Crew execution completed successfully.''),
                               Print (concat (replicate 50 (lit ''=''))),
                               Print (lit ''Final Output:\<newline>'')]
                      in case print_str w [] final_output of
                           Inl err \<Rightarrow> (out, Propagated err)
                         | Inr shown \<Rightarrow>
                             (let out = out @ [shown]
                              in case article_md w of
                                   Text article \<Rightarrow>
                                     (out @ [Print (lit ''\<newline>Article saved to 'article.md'.''),
                                             Print (lit ''Article length: '' @ str_nat (length article)
                                                    @ lit '' characters'')],
                                      Returned)
                                 | Unreadable exc \<Rightarrow> (out, Propagated exc)
                                 | Missing \<Rightarrow>
                                     (out @ [Print (lit (
                                               ''\<newline>The file 'article.md' was not created. Confirm that the'' @
                                               '' FileWriterTool is configured correctly.''))],
                                      Returned)))))"


section \<open>Observations on a run\<close>

text \<open>The crews handed to the executor, in order.\<close>

definition kickoffs :: "event list \<Rightarrow> crew list" where
  "kickoffs tr = concat (map (\<lambda>e. case e of Kickoff c \<Rightarrow> [c] | _ \<Rightarrow> []) tr)"


section \<open>Facts about the model\<close>

lemma lit_Nil [simp]: "lit [] = []"
  by (simp add: lit_def)

lemma lit_append: "lit (a @ b) = lit a @ lit b"
  by (simp add: lit_def)


lemma not_truthy_iff: "\<not> truthy v \<longleftrightarrow> v = None \<or> v = Some []"
  by (cases v) (simp_all add: truthy_def)

lemma kickoffs_append [simp]: "kickoffs (xs @ ys) = kickoffs xs @ kickoffs ys"
  by (simp add: kickoffs_def)

lemma kickoffs_Nil [simp]: "kickoffs [] = []"
  by (simp add: kickoffs_def)

lemma kickoffs_Cons [simp]:
  "kickoffs (Print s # tr) = kickoffs tr"
  "kickoffs (Input s # tr) = kickoffs tr"
  "kickoffs (Kickoff c # tr) = c # kickoffs tr"
  by (simp_all add: kickoffs_def)

lemma kickoffs_warn [simp]: "kickoffs (warn_about_missing_keys env) = []"
  by (simp add: warn_about_missing_keys_def)

lemma kickoffs_intro [simp]: "kickoffs print_intro = []"
  by (simp add: print_intro_def)

lemma kickoffs_choose_topic [simp]: "kickoffs (snd (choose_topic line)) = []"
  by (simp add: choose_topic_def Let_def)

lemma Kickoff_in_set_iff: "Kickoff c \<in> set tr \<longleftrightarrow> c \<in> set (kickoffs tr)"
  by (induction tr) (auto simp: kickoffs_def split: event.splits)

lemma main_None: "stdin_line w = None \<Longrightarrow> fst (main w) =
    print_intro @ warn_about_missing_keys (environ w) @ [Input (lit ''Enter a topic to explore: '')]"
  by (simp add: main_def)

lemma print_str_Inr:
  "print_str w lead shown = Inr ev \<longleftrightarrow>
     (\<exists>text. shown = Inr text \<and> stdout_raises w (lead @ text) = None
        \<and> ev = Print (lead @ text))"
  by (auto simp: print_str_def split: sum.splits option.splits)

lemma main_Some:
  fixes w line
  defines "c \<equiv> assemble_crew (environ w) (fst (choose_topic line))"
  defines "pre \<equiv> print_intro @ warn_about_missing_keys (environ w)
      @ [Input (lit ''Enter a topic to explore: '')]
      @ snd (choose_topic line)
      @ [Print (lit ''\<newline>Topic: '' @ fst (choose_topic line)),
         Print (concat (replicate 50 (lit ''=''))),
         Print (lit ''\<newline>Configuring agents based on public service and design experience...''),
         Print (lit ''Defining tasks aligned to research and storytelling workflows...''),
         Print (lit ''\<newline>Launching the sequential crew...'')]"
  assumes "stdin_line w = Some line"
  shows "main w =
    (case kickoff w c of
       Raises exc \<Rightarrow>
         if isinstance_Exception exc
         then (case print_str w (lit ''Reason: '') (str_of exc) of
                 Inl err \<Rightarrow>
                   (pre @ [Kickoff c,
                      Print (lit ''\<newline>Crew execution did not complete successfully.'')],
                    Propagated err)
               | Inr reason \<Rightarrow>
                   (pre @ [Kickoff c,
                      Print (lit ''\<newline>Crew execution did not complete successfully.''),
                      reason,
                      Print (lit ''Verify API credentials and network access, then re-run the script.'')],
                    Returned))
         else (pre @ [Kickoff c], Propagated exc)
     | Returns final_output \<Rightarrow>
         (case print_str w [] final_output of
            Inl err \<Rightarrow>
              (pre @ [Kickoff c,
                 Print (lit ''\<newline>Crew execution completed successfully.''),
                 Print (concat (replicate 50 (lit ''=''))),
                 Print (lit ''Final Output:\<newline>'')],
               Propagated err)
          | Inr shown \<Rightarrow>
              (case article_md w of
                 Text article \<Rightarrow>
                   (pre @ [Kickoff c,
                      Print (lit ''\<newline>Crew execution completed successfully.''),
                      Print (concat (replicate 50 (lit ''=''))),
                      Print (lit ''Final Output:\<newline>''),
                      shown,
                      Print (lit ''\<newline>Article saved to 'article.md'.''),
                      Print (lit ''Article length: '' @ str_nat (length article) @ lit '' characters'')],
                    Returned)
               | Unreadable exc \<Rightarrow>
                   (pre @ [Kickoff c,
                      Print (lit ''\<newline>Crew execution completed successfully.''),
                      Print (concat (replicate 50 (lit ''=''))),
                      Print (lit ''Final Output:\<newline>''),
                      shown],
                    Propagated exc)
               | Missing \<Rightarrow>
                   (pre @ [Kickoff c,
                      Print (lit ''\<newline>Crew execution completed successfully.''),
                      Print (concat (replicate 50 (lit ''=''))),
                      Print (lit ''Final Output:\<newline>''),
                      shown,
                      Print (lit ''\<newline>The file 'article.md' was not created. Confirm that the FileWriterTool is configured correctly.'')],
                    Returned))))"
  using assms(3) unfolding c_def pre_def
  by (simp add: main_def Let_def lit_append
        split: prod.splits outcome.splits path_state.splits sum.splits)

lemma kickoffs_main_Some:
  assumes "stdin_line w = Some line"
  shows "kickoffs (fst (main w)) = [assemble_crew (environ w) (fst (choose_topic line))]"
  by (auto simp: main_Some [OF assms] print_str_Inr
        split: outcome.splits path_state.splits sum.splits)

lemma kickoffs_main_None:
  assumes "stdin_line w = None"
  shows "kickoffs (fst (main w)) = []"
  by (simp add: main_None [OF assms])

lemma Kickoff_in_main:
  assumes "Kickoff c \<in> set (fst (main w))"
  obtains line where "stdin_line w = Some line"
    and "c = assemble_crew (environ w) (fst (choose_topic line))"
proof (cases "stdin_line w")
  case None
  with assms show ?thesis by (simp add: Kickoff_in_set_iff kickoffs_main_None)
next
  case (Some line)
  with assms have "c = assemble_crew (environ w) (fst (choose_topic line))"
    by (simp add: Kickoff_in_set_iff kickoffs_main_Some)
  with Some show ?thesis by (rule that)
qed



lemma choose_topic_AI: "choose_topic (lit ''AI'') = (lit ''AI'', [])"
  by (simp add: choose_topic_def strip_def py_isspace_def lit_def)


section \<open>The properties\<close>

subsection \<open>The default topic\<close>



subsection \<open>The web-search tool\<close>

text \<open>
  C2, as amended. The research agent's tools are \<open>[SerperDevTool()]\<close> exactly when
  \<open>SERPER_API_KEY\<close> is set to a non-empty string, and the empty list exactly when it
  is not set or is set to the empty string: \<open>_maybe_create_serper_tool\<close> tests the
  truthiness of \<open>os.getenv("SERPER_API_KEY")\<close>.
\<close>

theorem research_tools_iff_key_nonempty:
  "(tools (create_research_agent env) = [SerperDevTool]
      \<longleftrightarrow> (\<exists>v. env (lit ''SERPER_API_KEY'') = Some v \<and> v \<noteq> []))
   \<and> (tools (create_research_agent env) = []
      \<longleftrightarrow> (env (lit ''SERPER_API_KEY'') = None \<or> env (lit ''SERPER_API_KEY'') = Some []))"
  by (cases "env (lit ''SERPER_API_KEY'')")
     (simp_all add: create_research_agent_def maybe_create_serper_tool_def getenv_def truthy_def)

text \<open>
  C2 as stated (the tool is there whenever the variable is set) fails where
  \<open>SERPER_API_KEY\<close> is set to the empty string: the variable is set and the tools list
  is empty.
\<close>

theorem research_tools_set_counterexample:
  "(Map.empty(lit ''SERPER_API_KEY'' \<mapsto> [])) (lit ''SERPER_API_KEY'') \<noteq> None
   \<and> tools (create_research_agent (Map.empty(lit ''SERPER_API_KEY'' \<mapsto> []))) = []"
  by (simp add: create_research_agent_def maybe_create_serper_tool_def getenv_def truthy_def)

subsection \<open>Warnings about missing keys\<close>

text \<open>
  C3, as amended. \<open>_warn_about_missing_keys\<close> prints the three warning lines that name
  \<open>OPENAI_API_KEY\<close> exactly when that variable is not set or is set to the empty string
  (the test is \<open>not os.getenv(...)\<close>), followed by the \<open>SERPER_API_KEY\<close> note exactly
  when that variable is not set (the test is \<open>is None\<close>); it prints nothing else.
\<close>

theorem missing_key_warnings:
  "warn_about_missing_keys env =
     (if env (lit ''OPENAI_API_KEY'') = None \<or> env (lit ''OPENAI_API_KEY'') = Some []
      then [Print (lit ''Warning: the following environment variables are not set:''),
            Print (lit '' - OPENAI_API_KEY''),
            Print (lit ''Set the required keys before running the crew to avoid runtime errors.'')]
      else [])
     @ (if env (lit ''SERPER_API_KEY'') = None
        then [Print (lit ''Note: SERPER_API_KEY is not configured. Web search will be skipped, but the crew can still operate with available context.'')]
        else [])"
  by (simp add: warn_about_missing_keys_def getenv_def not_truthy_iff lit_def)

text \<open>
  C3 as stated (no missing-key message for a variable that is set) fails where
  \<open>OPENAI_API_KEY\<close> is set to the empty string: the variable is set and the warning
  naming it is printed.
\<close>

theorem missing_key_warnings_counterexample:
  "(Map.empty(lit ''OPENAI_API_KEY'' \<mapsto> [], lit ''SERPER_API_KEY'' \<mapsto> lit ''k''))
       (lit ''OPENAI_API_KEY'') = Some []
   \<and> warn_about_missing_keys
        (Map.empty(lit ''OPENAI_API_KEY'' \<mapsto> [], lit ''SERPER_API_KEY'' \<mapsto> lit ''k'')) =
       [Print (lit ''Warning: the following environment variables are not set:''),
        Print (lit '' - OPENAI_API_KEY''),
        Print (lit ''Set the required keys before running the crew to avoid runtime errors.'')]"
  by (simp add: warn_about_missing_keys_def getenv_def truthy_def lit_def)

subsection \<open>A failing pipeline\<close>

text \<open>
  C4, as amended. Let main hand the crew \<open>c\<close> to the executor and \<open>kickoff\<close> raise the
  exception \<open>e\<close> on it. Then \<open>kickoff\<close> was called once, and nothing of the success path
  (the final output, the look at \<open>article.md\<close>) follows the call.
  \<^item> When \<open>e\<close> is an instance of \<open>Exception\<close>, the handler prints the failure line. When
    the line \<open>Reason:\<close> with the message of \<open>e\<close> can be written, it is printed, then the
    hint to verify credentials and network access, and main returns. When forming the
    message or writing that line raises, that exception propagates out of main and
    the hint is not printed.
  \<^item> When \<open>e\<close> is not an instance of \<open>Exception\<close>, nothing is printed and \<open>e\<close>
    propagates out of main.
\<close>

theorem kickoff_Exception_handled:
  assumes "Kickoff c \<in> set (fst (main w))"
    and "kickoff w c = Raises e"
  shows "\<exists>pre. kickoffs pre = []
     \<and> (isinstance_Exception e \<longrightarrow>
           (\<forall>msg. str_of e = Inr msg \<and> stdout_raises w (lit ''Reason: '' @ msg) = None \<longrightarrow>
              main w =
                (pre @ [Kickoff c,
                   Print (lit ''\<newline>Crew execution did not complete successfully.''),
                   Print (lit ''Reason: '' @ msg),
                   Print (lit ''Verify API credentials and network access, then re-run the script.'')],
                 Returned))
         \<and> (\<forall>msg err. str_of e = Inr msg
                \<and> stdout_raises w (lit ''Reason: '' @ msg) = Some err \<longrightarrow>
              main w =
                (pre @ [Kickoff c,
                   Print (lit ''\<newline>Crew execution did not complete successfully.'')],
                 Propagated err))
         \<and> (\<forall>err. str_of e = Inl err \<longrightarrow>
              main w =
                (pre @ [Kickoff c,
                   Print (lit ''\<newline>Crew execution did not complete successfully.'')],
                 Propagated err)))
     \<and> (\<not> isinstance_Exception e \<longrightarrow> main w = (pre @ [Kickoff c], Propagated e))"
proof -
  from assms(1) obtain line where line: "stdin_line w = Some line"
    and c: "c = assemble_crew (environ w) (fst (choose_topic line))"
    by (rule Kickoff_in_main)
  define pre where "pre = print_intro @ warn_about_missing_keys (environ w)
      @ [Input (lit ''Enter a topic to explore: '')]
      @ snd (choose_topic line)
      @ [Print (lit ''\<newline>Topic: '' @ fst (choose_topic line)),
         Print (concat (replicate 50 (lit ''=''))),
         Print (lit ''\<newline>Configuring agents based on public service and design experience...''),
         Print (lit ''Defining tasks aligned to research and storytelling workflows...''),
         Print (lit ''\<newline>Launching the sequential crew...'')]"
  have no: "kickoffs pre = []"
    by (simp add: pre_def)
  from assms(2) c have m: "main w =
      (if isinstance_Exception e
       then (case print_str w (lit ''Reason: '') (str_of e) of
               Inl err \<Rightarrow>
                 (pre @ [Kickoff c,
                    Print (lit ''\<newline>Crew execution did not complete successfully.'')],
                  Propagated err)
             | Inr reason \<Rightarrow>
                 (pre @ [Kickoff c,
                    Print (lit ''\<newline>Crew execution did not complete successfully.''),
                    reason,
                    Print (lit ''Verify API credentials and network access, then re-run the script.'')],
                  Returned))
       else (pre @ [Kickoff c], Propagated e))"
    by (simp add: main_Some [OF line] pre_def split: sum.splits)
  show ?thesis
    by (rule exI [of _ pre]) (simp add: no m print_str_def)
qed

text \<open>
  Three runs on the line \<open>"AI"\<close>: \<open>kickoff\<close> raises an \<open>Exception\<close> whose message is
  \<open>"no key"\<close>; it raises \<open>SystemExit("bye")\<close>, which is not an \<open>Exception\<close>; it raises an
  \<open>Exception\<close> whose message ends in U+00E9 while standard output encodes ASCII only.
\<close>

theorem kickoff_Exception_handled_witness:
  "(let w = \<lparr> environ = Map.empty, stdin_line = Some (lit ''AI''),
               kickoff = (\<lambda>c. Raises (Exn True (Inr (lit ''no key'')))),
               stdout_raises = (\<lambda>s. None), article_md = Missing \<rparr>;
        c = assemble_crew Map.empty (lit ''AI'')
    in Kickoff c \<in> set (fst (main w))
       \<and> kickoff w c = Raises (Exn True (Inr (lit ''no key'')))
       \<and> (\<exists>pre. kickoffs pre = []
            \<and> main w =
               (pre @ [Kickoff c,
                  Print (lit ''\<newline>Crew execution did not complete successfully.''),
                  Print (lit ''Reason: no key''),
                  Print (lit ''Verify API credentials and network access, then re-run the script.'')],
                Returned)))
   \<and> (let w = \<lparr> environ = Map.empty, stdin_line = Some (lit ''AI''),
               kickoff = (\<lambda>c. Raises (Exn False (Inr (lit ''bye'')))),
               stdout_raises = (\<lambda>s. None), article_md = Missing \<rparr>;
        c = assemble_crew Map.empty (lit ''AI'')
    in Kickoff c \<in> set (fst (main w))
       \<and> kickoff w c = Raises (Exn False (Inr (lit ''bye'')))
       \<and> (\<exists>pre. kickoffs pre = []
            \<and> main w = (pre @ [Kickoff c], Propagated (Exn False (Inr (lit ''bye''))))))
   \<and> (let w = \<lparr> environ = Map.empty, stdin_line = Some (lit ''AI''),
               kickoff = (\<lambda>c. Raises (Exn True (Inr (lit ''caf'' @ [233])))),
               stdout_raises = (\<lambda>s. if list_all (\<lambda>c. c < 128) s then None
                  else Some (Exn True (Inr (lit ''ordinal not in range(128)'')))),
               article_md = Missing \<rparr>;
        c = assemble_crew Map.empty (lit ''AI'')
    in Kickoff c \<in> set (fst (main w))
       \<and> kickoff w c = Raises (Exn True (Inr (lit ''caf'' @ [233])))
       \<and> (\<exists>pre. kickoffs pre = []
            \<and> main w =
               (pre @ [Kickoff c,
                  Print (lit ''\<newline>Crew execution did not complete successfully.'')],
                Propagated (Exn True (Inr (lit ''ordinal not in range(128)''))))))"
proof -
  let ?w1 = "\<lparr> environ = Map.empty, stdin_line = Some (lit ''AI''),
               kickoff = (\<lambda>c. Raises (Exn True (Inr (lit ''no key'')))),
               stdout_raises = (\<lambda>s. None), article_md = Missing \<rparr>"
  let ?w2 = "\<lparr> environ = Map.empty, stdin_line = Some (lit ''AI''),
               kickoff = (\<lambda>c. Raises (Exn False (Inr (lit ''bye'')))),
               stdout_raises = (\<lambda>s. None), article_md = Missing \<rparr>"
  let ?w3 = "\<lparr> environ = Map.empty, stdin_line = Some (lit ''AI''),
               kickoff = (\<lambda>c. Raises (Exn True (Inr (lit ''caf'' @ [233])))),
               stdout_raises = (\<lambda>s. if list_all (\<lambda>c. c < 128) s then None
                  else Some (Exn True (Inr (lit ''ordinal not in range(128)'')))),
               article_md = Missing \<rparr>"
  let ?c = "assemble_crew Map.empty (lit ''AI'')"
  have mem1: "Kickoff ?c \<in> set (fst (main ?w1))"
    by (simp add: Kickoff_in_set_iff kickoffs_main_Some [of ?w1 "lit ''AI''"] choose_topic_AI)
  have mem2: "Kickoff ?c \<in> set (fst (main ?w2))"
    by (simp add: Kickoff_in_set_iff kickoffs_main_Some [of ?w2 "lit ''AI''"] choose_topic_AI)
  have mem3: "Kickoff ?c \<in> set (fst (main ?w3))"
    by (simp add: Kickoff_in_set_iff kickoffs_main_Some [of ?w3 "lit ''AI''"] choose_topic_AI)
  have r1: "kickoff ?w1 ?c = Raises (Exn True (Inr (lit ''no key'')))"
    by simp
  have r2: "kickoff ?w2 ?c = Raises (Exn False (Inr (lit ''bye'')))"
    by simp
  have r3: "kickoff ?w3 ?c = Raises (Exn True (Inr (lit ''caf'' @ [233])))"
    by simp
  have reason: "lit ''Reason: '' @ lit ''no key'' = lit ''Reason: no key''"
    by (simp add: lit_def)
  have ascii: "\<not> list_all (\<lambda>c. c < 128) (lit ''Reason: '' @ lit ''caf'' @ [233::nat])"
    by (simp add: lit_def)
  from kickoff_Exception_handled [OF mem1 r1]
  have h1: "\<exists>pre. kickoffs pre = []
            \<and> main ?w1 =
               (pre @ [Kickoff ?c,
                  Print (lit ''\<newline>Crew execution did not complete successfully.''),
                  Print (lit ''Reason: no key''),
                  Print (lit ''Verify API credentials and network access, then re-run the script.'')],
                Returned)"
    by (simp add: reason)
  from kickoff_Exception_handled [OF mem2 r2]
  have h2: "\<exists>pre. kickoffs pre = []
            \<and> main ?w2 = (pre @ [Kickoff ?c], Propagated (Exn False (Inr (lit ''bye''))))"
    by simp
  from kickoff_Exception_handled [OF mem3 r3]
  have h3: "\<exists>pre. kickoffs pre = []
            \<and> main ?w3 =
               (pre @ [Kickoff ?c,
                  Print (lit ''\<newline>Crew execution did not complete successfully.'')],
                Propagated (Exn True (Inr (lit ''ordinal not in range(128)''))))"
    by (simp add: ascii)
  from mem1 mem2 mem3 h1 h2 h3 show ?thesis
    by (simp add: Let_def)
qed

text \<open>
  C4 as stated fails in two ways. An exception that is not an instance of \<open>Exception\<close>,
  such as the \<open>KeyboardInterrupt\<close> of an interrupted run, whose message is empty, is not
  caught: main does not return but lets it propagate, and the call of \<open>kickoff\<close> is the
  last thing the run did. An \<open>Exception\<close> whose message standard output cannot encode is
  caught, but printing the message raises: main does not return, and the failure line is
  the last thing the run did, so the hint is not printed.
\<close>

theorem kickoff_every_exception_counterexample:
  "(let w = \<lparr> environ = Map.empty, stdin_line = Some (lit ''AI''),
               kickoff = (\<lambda>c. Raises (Exn False (Inr []))),
               stdout_raises = (\<lambda>s. None), article_md = Missing \<rparr>
    in snd (main w) = Propagated (Exn False (Inr []))
       \<and> last (fst (main w)) = Kickoff (assemble_crew Map.empty (lit ''AI'')))
   \<and> (let w = \<lparr> environ = Map.empty, stdin_line = Some (lit ''AI''),
               kickoff = (\<lambda>c. Raises (Exn True (Inr (lit ''caf'' @ [233])))),
               stdout_raises = (\<lambda>s. if list_all (\<lambda>c. c < 128) s then None
                  else Some (Exn True (Inr (lit ''ordinal not in range(128)'')))),
               article_md = Missing \<rparr>
    in snd (main w) = Propagated (Exn True (Inr (lit ''ordinal not in range(128)'')))
       \<and> last (fst (main w)) =
           Print (lit ''\<newline>Crew execution did not complete successfully.''))"
proof -
  have ascii: "\<not> list_all (\<lambda>c. c < 128) (lit ''Reason: '' @ lit ''caf'' @ [233::nat])"
    by (simp add: lit_def)
  show ?thesis
    by (simp add: Let_def choose_topic_AI print_str_def ascii
          main_Some [of "\<lparr> environ = Map.empty, stdin_line = Some (lit ''AI''),
               kickoff = (\<lambda>c. Raises (Exn False (Inr []))),
               stdout_raises = (\<lambda>s. None), article_md = Missing \<rparr>" "lit ''AI''"]
          main_Some [of "\<lparr> environ = Map.empty, stdin_line = Some (lit ''AI''),
               kickoff = (\<lambda>c. Raises (Exn True (Inr (lit ''caf'' @ [233])))),
               stdout_raises = (\<lambda>s. if list_all (\<lambda>c. c < 128) s then None
                  else Some (Exn True (Inr (lit ''ordinal not in range(128)'')))),
               article_md = Missing \<rparr>" "lit ''AI''"])
qed


subsection \<open>The report on article.md\<close>

text \<open>
  C5, as amended. Let main hand the crew \<open>c\<close> to the executor and \<open>kickoff\<close> return. Main
  prints the three lines that head the success report and then the final output. When
  the final output has been printed, what follows is chosen by \<open>article.md\<close>:
  \<^item> when it does not exist, the line saying it was not created, and main returns;
  \<^item> when it exists and its contents are read as the text \<open>article\<close>, the line saying the
    article was saved and the line \<open>Article length: n characters\<close>, where \<open>n\<close> is the
    number of code points of that text, and main returns;
  \<^item> when it exists and opening or reading it raises, neither report: the exception
    propagates out of main.

  When printing the final output raises, that exception propagates out of main and
  \<open>article.md\<close> is not looked at.
\<close>

theorem article_report_by_existence:
  assumes "Kickoff c \<in> set (fst (main w))"
    and "kickoff w c = Returns shown"
  shows "\<exists>pre. kickoffs pre = []
     \<and> (\<forall>final_output. shown = Inr final_output \<and> stdout_raises w final_output = None \<longrightarrow>
           (article_md w = Missing \<longrightarrow>
              main w =
                (pre @ [Kickoff c,
                   Print (lit ''\<newline>Crew execution completed successfully.''),
                   Print (concat (replicate 50 (lit ''=''))),
                   Print (lit ''Final Output:\<newline>''),
                   Print final_output,
                   Print (lit ''\<newline>The file 'article.md' was not created. Confirm that the FileWriterTool is configured correctly.'')],
                 Returned))
         \<and> (\<forall>article. article_md w = Text article \<longrightarrow>
              main w =
                (pre @ [Kickoff c,
                   Print (lit ''\<newline>Crew execution completed successfully.''),
                   Print (concat (replicate 50 (lit ''=''))),
                   Print (lit ''Final Output:\<newline>''),
                   Print final_output,
                   Print (lit ''\<newline>Article saved to 'article.md'.''),
                   Print (lit ''Article length: '' @ str_nat (length article) @ lit '' characters'')],
                 Returned))
         \<and> (\<forall>err. article_md w = Unreadable err \<longrightarrow>
              main w =
                (pre @ [Kickoff c,
                   Print (lit ''\<newline>Crew execution completed successfully.''),
                   Print (concat (replicate 50 (lit ''=''))),
                   Print (lit ''Final Output:\<newline>''),
                   Print final_output],
                 Propagated err)))
     \<and> (\<forall>final_output err. shown = Inr final_output
            \<and> stdout_raises w final_output = Some err \<longrightarrow>
           main w =
             (pre @ [Kickoff c,
                Print (lit ''\<newline>Crew execution completed successfully.''),
                Print (concat (replicate 50 (lit ''=''))),
                Print (lit ''Final Output:\<newline>'')],
              Propagated err))
     \<and> (\<forall>err. shown = Inl err \<longrightarrow>
           main w =
             (pre @ [Kickoff c,
                Print (lit ''\<newline>Crew execution completed successfully.''),
                Print (concat (replicate 50 (lit ''=''))),
                Print (lit ''Final Output:\<newline>'')],
              Propagated err))"
proof -
  from assms(1) obtain line where line: "stdin_line w = Some line"
    and c: "c = assemble_crew (environ w) (fst (choose_topic line))"
    by (rule Kickoff_in_main)
  define pre where "pre = print_intro @ warn_about_missing_keys (environ w)
      @ [Input (lit ''Enter a topic to explore: '')]
      @ snd (choose_topic line)
      @ [Print (lit ''\<newline>Topic: '' @ fst (choose_topic line)),
         Print (concat (replicate 50 (lit ''=''))),
         Print (lit ''\<newline>Configuring agents based on public service and design experience...''),
         Print (lit ''Defining tasks aligned to research and storytelling workflows...''),
         Print (lit ''\<newline>Launching the sequential crew...'')]"
  have no: "kickoffs pre = []"
    by (simp add: pre_def)
  define head where "head = pre @ [Kickoff c,
      Print (lit ''\<newline>Crew execution completed successfully.''),
      Print (concat (replicate 50 (lit ''=''))),
      Print (lit ''Final Output:\<newline>'')]"
  from assms(2) c have m: "main w =
      (case print_str w [] shown of
         Inl err \<Rightarrow> (head, Propagated err)
       | Inr ev \<Rightarrow>
           (case article_md w of
              Text article \<Rightarrow>
                (head @ [ev,
                   Print (lit ''\<newline>Article saved to 'article.md'.''),
                   Print (lit ''Article length: '' @ str_nat (length article) @ lit '' characters'')],
                 Returned)
            | Unreadable exc \<Rightarrow> (head @ [ev], Propagated exc)
            | Missing \<Rightarrow>
                (head @ [ev,
                   Print (lit ''\<newline>The file 'article.md' was not created. Confirm that the FileWriterTool is configured correctly.'')],
                 Returned)))"
    by (simp add: main_Some [OF line] pre_def head_def
          split: sum.splits path_state.splits)
  show ?thesis
    by (rule exI [of _ pre]) (simp add: no m print_str_def head_def)
qed

text \<open>
  Three runs that differ in \<open>article.md\<close> only: missing, holding the twelve characters
  \<open># Safeguards\<close>, and a directory.
\<close>

theorem article_report_by_existence_witness:
  "(let w = \<lparr> environ = Map.empty, stdin_line = Some (lit ''AI''),
               kickoff = (\<lambda>c. Returns (Inr (lit ''done''))),
               stdout_raises = (\<lambda>s. None), article_md = Missing \<rparr>;
        c = assemble_crew Map.empty (lit ''AI'')
    in Kickoff c \<in> set (fst (main w)) \<and> kickoff w c = Returns (Inr (lit ''done''))
       \<and> (\<exists>pre. kickoffs pre = []
             \<and> main w =
                (pre @ [Kickoff c,
                   Print (lit ''\<newline>Crew execution completed successfully.''),
                   Print (concat (replicate 50 (lit ''=''))),
                   Print (lit ''Final Output:\<newline>''),
                   Print (lit ''done''),
                   Print (lit ''\<newline>The file 'article.md' was not created. Confirm that the FileWriterTool is configured correctly.'')],
                 Returned)))
   \<and> (let w = \<lparr> environ = Map.empty, stdin_line = Some (lit ''AI''),
               kickoff = (\<lambda>c. Returns (Inr (lit ''done''))),
               stdout_raises = (\<lambda>s. None),
               article_md = Text (lit ''# Safeguards'') \<rparr>;
        c = assemble_crew Map.empty (lit ''AI'')
    in Kickoff c \<in> set (fst (main w)) \<and> kickoff w c = Returns (Inr (lit ''done''))
       \<and> (\<exists>pre. kickoffs pre = []
             \<and> main w =
                (pre @ [Kickoff c,
                   Print (lit ''\<newline>Crew execution completed successfully.''),
                   Print (concat (replicate 50 (lit ''=''))),
                   Print (lit ''Final Output:\<newline>''),
                   Print (lit ''done''),
                   Print (lit ''\<newline>Article saved to 'article.md'.''),
                   Print (lit ''Article length: 12 characters'')],
                 Returned)))
   \<and> (let w = \<lparr> environ = Map.empty, stdin_line = Some (lit ''AI''),
               kickoff = (\<lambda>c. Returns (Inr (lit ''done''))),
               stdout_raises = (\<lambda>s. None),
               article_md = Unreadable (Exn True (Inr (lit ''[Errno 21] Is a directory: 'article.md' ''))) \<rparr>;
        c = assemble_crew Map.empty (lit ''AI'')
    in Kickoff c \<in> set (fst (main w)) \<and> kickoff w c = Returns (Inr (lit ''done''))
       \<and> (\<exists>pre. kickoffs pre = []
             \<and> main w =
                (pre @ [Kickoff c,
                   Print (lit ''\<newline>Crew execution completed successfully.''),
                   Print (concat (replicate 50 (lit ''=''))),
                   Print (lit ''Final Output:\<newline>''),
                   Print (lit ''done'')],
                 Propagated (Exn True (Inr (lit ''[Errno 21] Is a directory: 'article.md' ''))))))"
proof -
  let ?w1 = "\<lparr> environ = Map.empty, stdin_line = Some (lit ''AI''),
               kickoff = (\<lambda>c. Returns (Inr (lit ''done''))),
               stdout_raises = (\<lambda>s. None), article_md = Missing \<rparr>"
  let ?w2 = "\<lparr> environ = Map.empty, stdin_line = Some (lit ''AI''),
               kickoff = (\<lambda>c. Returns (Inr (lit ''done''))),
               stdout_raises = (\<lambda>s. None),
               article_md = Text (lit ''# Safeguards'') \<rparr>"
  let ?w3 = "\<lparr> environ = Map.empty, stdin_line = Some (lit ''AI''),
               kickoff = (\<lambda>c. Returns (Inr (lit ''done''))),
               stdout_raises = (\<lambda>s. None),
               article_md = Unreadable (Exn True (Inr (lit ''[Errno 21] Is a directory: 'article.md' ''))) \<rparr>"
  let ?c = "assemble_crew Map.empty (lit ''AI'')"
  have mem1: "Kickoff ?c \<in> set (fst (main ?w1))"
    by (simp add: Kickoff_in_set_iff kickoffs_main_Some [of ?w1 "lit ''AI''"] choose_topic_AI)
  have mem2: "Kickoff ?c \<in> set (fst (main ?w2))"
    by (simp add: Kickoff_in_set_iff kickoffs_main_Some [of ?w2 "lit ''AI''"] choose_topic_AI)
  have mem3: "Kickoff ?c \<in> set (fst (main ?w3))"
    by (simp add: Kickoff_in_set_iff kickoffs_main_Some [of ?w3 "lit ''AI''"] choose_topic_AI)
  have len: "lit ''Article length: '' @ str_nat (length (lit ''# Safeguards'')) @ lit '' characters''
      = lit ''Article length: 12 characters''"
    by (simp add: lit_def str_nat.simps)
  have r1: "kickoff ?w1 ?c = Returns (Inr (lit ''done''))"
    by simp
  have r2: "kickoff ?w2 ?c = Returns (Inr (lit ''done''))"
    by simp
  have r3: "kickoff ?w3 ?c = Returns (Inr (lit ''done''))"
    by simp
  from article_report_by_existence [OF mem1 r1]
  have h1: "\<exists>pre. kickoffs pre = []
             \<and> main ?w1 =
                (pre @ [Kickoff ?c,
                   Print (lit ''\<newline>Crew execution completed successfully.''),
                   Print (concat (replicate 50 (lit ''=''))),
                   Print (lit ''Final Output:\<newline>''),
                   Print (lit ''done''),
                   Print (lit ''\<newline>The file 'article.md' was not created. Confirm that the FileWriterTool is configured correctly.'')],
                 Returned)"
    by simp
  from article_report_by_existence [OF mem2 r2]
  have h2: "\<exists>pre. kickoffs pre = []
             \<and> main ?w2 =
                (pre @ [Kickoff ?c,
                   Print (lit ''\<newline>Crew execution completed successfully.''),
                   Print (concat (replicate 50 (lit ''=''))),
                   Print (lit ''Final Output:\<newline>''),
                   Print (lit ''done''),
                   Print (lit ''\<newline>Article saved to 'article.md'.''),
                   Print (lit ''Article length: 12 characters'')],
                 Returned)"
    by (simp add: len)
  from article_report_by_existence [OF mem3 r3]
  have h3: "\<exists>pre. kickoffs pre = []
             \<and> main ?w3 =
                (pre @ [Kickoff ?c,
                   Print (lit ''\<newline>Crew execution completed successfully.''),
                   Print (concat (replicate 50 (lit ''=''))),
                   Print (lit ''Final Output:\<newline>''),
                   Print (lit ''done'')],
                 Propagated (Exn True (Inr (lit ''[Errno 21] Is a directory: 'article.md' ''))))"
    by simp
  from mem1 mem2 mem3 h1 h2 h3 show ?thesis
    by (simp add: Let_def)
qed

text \<open>
  C5 as stated (when \<open>article.md\<close> exists, main prints that the article was saved and its
  length) fails where \<open>article.md\<close> exists and is a directory: the pipeline has returned
  and its output \<open>done\<close> has been printed, the path is not missing, \<open>open\<close> raises, main
  does not return, and the final output is the last thing printed, so neither report
  appears.
\<close>

theorem article_exists_unreadable_counterexample:
  "(let w = \<lparr> environ = Map.empty, stdin_line = Some (lit ''AI''),
               kickoff = (\<lambda>c. Returns (Inr (lit ''done''))),
               stdout_raises = (\<lambda>s. None),
               article_md = Unreadable (Exn True (Inr (lit ''[Errno 21] Is a directory: 'article.md' ''))) \<rparr>
    in article_md w \<noteq> Missing
       \<and> snd (main w) =
           Propagated (Exn True (Inr (lit ''[Errno 21] Is a directory: 'article.md' '')))
       \<and> last (fst (main w)) = Print (lit ''done''))"
  by (simp add: Let_def choose_topic_AI print_str_def
        main_Some [of "\<lparr> environ = Map.empty, stdin_line = Some (lit ''AI''),
               kickoff = (\<lambda>c. Returns (Inr (lit ''done''))),
               stdout_raises = (\<lambda>s. None),
               article_md = Unreadable (Exn True (Inr (lit ''[Errno 21] Is a directory: 'article.md' ''))) \<rparr>" "lit ''AI''"])


subsection \<open>Literal configuration strings\<close>

text \<open>
  C6. The factories pass the string literals of the source on unchanged, in every
  environment and for every agent, task and topic they are given: the role, goal and
  backstory of the two agents are the literals of \<open>create_research_agent\<close> and
  \<open>create_writer_agent\<close> (adjacent literals joined), and the description and expected
  output of the two tasks are the strings built in \<open>create_research_task\<close> and
  \<open>create_writing_task\<close>, the topic and \<open>BACKGROUND_CONTEXT\<close> interpolated.
\<close>

theorem factories_carry_literals:
  "role (create_research_agent env) =
        lit ''Ethics and Emerging Technology Research Lead''
   \<and> goal (create_research_agent env) =
        lit ''Synthesize cross-sector research into AI governance, civic technology, and human-centered innovation so complex topics are ready for policy and design discussions.''
   \<and> backstory (create_research_agent env) =
        lit ''You guide conversations on technology ethics at Stanford, advise on AI accountability from service at the U.S. Government Accountability Office and the U.S. Patent and Trademark Office, and translate research for public servants, engineers, and designers.''
   \<and> role (create_writer_agent env) =
        lit ''Policy Communicator and Storyteller''
   \<and> goal (create_writer_agent env) =
        lit ''Transform nuanced research into compelling narratives with clear recommendations for civic leaders, technologists, and academics.''
   \<and> backstory (create_writer_agent env) =
        lit ''Drawing on experience moderating discussions with global leaders, crafting GAO reports for Congress, and briefing White House stakeholders, you excel at weaving evidence, ethics, and inclusive design into accessible writing.''
   \<and> description (create_research_task agent topic) =
        lit ''Investigate the topic: ''
        @ topic
        @ lit ''\<newline>\<newline>    Anchor your thinking in the following background:\<newline>    ''
        @ BACKGROUND_CONTEXT
        @ lit ''\<newline>\<newline>    Focus your review on:\<newline>    1. Ethical, societal, and economic implications across government, industry, and civil society\<newline>    2. Practical case studies from Federal initiatives, academia, and mission-driven organizations\<newline>    3. Key policy, legal, and governance debates shaping the technology's deployment\<newline>    4. Opportunities to align innovation with public interest outcomes and inclusive design\<newline>\<newline>    Deliver concise, sourced findings suitable for collaboration with product, policy, and research partners.''
   \<and> expected_output (create_research_task agent topic) =
        lit ''A structured research memo that includes:\<newline>    - Executive summary highlighting the most relevant developments\<newline>    - Table of key benefits, risks, and mitigation strategies\<newline>    - Case studies with short annotations on impact and lessons learned\<newline>    - Policy or governance considerations with references\<newline>    - Bibliography of credible sources consulted''
   \<and> description (create_writing_task agent' research_task topic) =
        lit ''Using the research findings, craft a policy-oriented article on: ''
        @ topic
        @ lit ''\<newline>\<newline>    Keep this lived experience in mind while writing:\<newline>    ''
        @ BACKGROUND_CONTEXT
        @ lit ''\<newline>\<newline>    Requirements:\<newline>    1. Open with a concise briefing that situates the issue for technology and policy leaders\<newline>    2. Organize sections for context, current state of the field, governance considerations, and future outlook\<newline>    3. Showcase real-world examples that resonate with multi-sector stakeholders\<newline>    4. Recommend actionable steps for researchers, product teams, and public officials\<newline>    5. Save the article to 'article.md' in Markdown format\<newline>\<newline>    Aim for 800-1000 words with clear headings and accessible explanations.\<newline>    Maintain a tone that reflects a collaborative civic technologist.''
   \<and> expected_output (create_writing_task agent' research_task topic) =
        lit ''A Markdown article saved as 'article.md' containing:\<newline>    - Briefing-style introduction\<newline>    - Thematic sections with descriptive headings\<newline>    - Integrated examples and stakeholder perspectives\<newline>    - Actionable recommendations and closing reflection\<newline>    - Reference list for further reading''
   \<and> BACKGROUND_CONTEXT =
        lit ''You bring together experiences such as:\<newline>- Guiding Stanford's Ethics, Technology, and Public Policy cohort alongside\<newline>  Professors Mehran Sahami, Jeremy Weinstein, and Rob Reich\<newline>- Examining artificial intelligence and software innovations as a U.S. Patent\<newline>  Examiner and GAO technology auditor\<newline>- Advising Federal leaders across the White House, OMB, SBA, GSA, and the\<newline>  Department of Education on data transparency, emerging technology, and\<newline>  digital service delivery\<newline>- Championing human-centered design at IDEO and launching civic technology and\<newline>  economic development initiatives with governments, nonprofits, and industry\<newline>- Supporting academic and civic communities at the University of Pennsylvania,\<newline>  University of Michigan, USC, and international forums such as UNICEF USA\<newline>Use this lived experience to ground every analysis, highlight ethical and\<newline>equity implications, and surface cross-sector collaboration opportunities.''"
proof (intro conjI)
  show "role (create_research_agent env) = lit ''Ethics and Emerging Technology Research Lead''"
    by (simp add: create_research_agent_def)
  show "role (create_writer_agent env) = lit ''Policy Communicator and Storyteller''"
    by (simp add: create_writer_agent_def)
qed (simp_all add: create_research_agent_def create_writer_agent_def
       create_research_task_def create_writing_task_def BACKGROUND_CONTEXT_def lit_append)

subsection \<open>The crew handed to the executor\<close>



subsection \<open>An empty SERPER_API_KEY\<close>

text \<open>
  C8. With \<open>SERPER_API_KEY\<close> set to the empty string, whatever the rest of the
  environment, the research agent has no tool (the check in
  \<open>_maybe_create_serper_tool\<close> is on truthiness) and the note that
  \<open>SERPER_API_KEY\<close> is not configured is not printed (the check in
  \<open>_warn_about_missing_keys\<close> is \<open>is None\<close>).
\<close>

theorem empty_serper_key_checks_disagree:
  "tools (create_research_agent (env(lit ''SERPER_API_KEY'' \<mapsto> []))) = []
   \<and> Print (lit ''Note: SERPER_API_KEY is not configured. Web search will be skipped, but the crew can still operate with available context.'')
       \<notin> set (warn_about_missing_keys (env(lit ''SERPER_API_KEY'' \<mapsto> [])))"
  by (simp add: create_research_agent_def maybe_create_serper_tool_def
        warn_about_missing_keys_def getenv_def truthy_def lit_def)

text \<open>
  The environment that holds only the empty \<open>SERPER_API_KEY\<close>.
\<close>

theorem empty_serper_key_checks_disagree_witness:
  "tools (create_research_agent (Map.empty(lit ''SERPER_API_KEY'' \<mapsto> []))) = []
   \<and> Print (lit ''Note: SERPER_API_KEY is not configured. Web search will be skipped, but the crew can still operate with available context.'')
       \<notin> set (warn_about_missing_keys (Map.empty(lit ''SERPER_API_KEY'' \<mapsto> [])))"
  by (rule empty_serper_key_checks_disagree)

subsection \<open>The writer's tools\<close>

text \<open>
  C9. In every environment the writer agent's tools are exactly
  \<open>[FileWriterTool()]\<close>.
\<close>

theorem writer_tools_unconditional:
  "tools (create_writer_agent env) = [FileWriterTool]"
  by (simp add: create_writer_agent_def)

subsection \<open>Topic and background in the task descriptions\<close>

text \<open>
  C10. For every topic, the descriptions of the research task and of the writing task
  contain the topic as a contiguous substring, the description of the research task
  contains \<open>BACKGROUND_CONTEXT\<close> as a contiguous substring, and both tasks are built
  with \<open>async_execution=False\<close>.
\<close>

theorem task_descriptions_mention_topic:
  "sublist topic (description (create_research_task agent topic))
   \<and> sublist topic (description (create_writing_task agent' research_task topic))
   \<and> sublist BACKGROUND_CONTEXT (description (create_research_task agent topic))
   \<and> async_execution (create_research_task agent topic) = False
   \<and> async_execution (create_writing_task agent' research_task topic) = False"
proof (intro conjI)
  show "sublist topic (description (create_research_task agent topic))"
    by (simp add: create_research_task_def)
  show "sublist topic (description (create_writing_task agent' research_task topic))"
    by (simp add: create_writing_task_def)
  have "\<exists>ps ss. description (create_research_task agent topic) = ps @ BACKGROUND_CONTEXT @ ss"
    unfolding create_research_task_def Let_def task.sel
    by (metis append.assoc)
  then show "sublist BACKGROUND_CONTEXT (description (create_research_task agent topic))"
    by (simp add: sublist_def)
  show "async_execution (create_research_task agent topic) = False"
    by (simp add: create_research_task_def)
  show "async_execution (create_writing_task agent' research_task topic) = False"
    by (simp add: create_writing_task_def)
qed

end
